theory Spec2Isabelle
  imports Main
begin

section \<open>Data model\<close>

text \<open>
  \<^verbatim>\<open>NvtxRange\<close> of \<^verbatim>\<open>NvtxRangeManager.ts\<close>. Line numbers are JavaScript numbers
  holding integers, modelled as \<open>int\<close>; the optional \<^verbatim>\<open>endLine\<close> is an \<open>option\<close>
  (\<open>None\<close> is \<^verbatim>\<open>undefined\<close>). The fields \<^verbatim>\<open>id\<close> and \<^verbatim>\<open>type\<close> carry a suffix
  because the plain names are taken.
\<close>

datatype RangeType = Block | Event

record NvtxRange =
  id_r :: string
  name :: string
  filePath :: string
  type_r :: RangeType
  startLine :: int
  endLine :: "int option"
  isEnabled :: bool

text \<open>
  The parts of the editor's interface the range manager reads: a position, a range of
  positions, one content change (\<^verbatim>\<open>change.range\<close>, \<^verbatim>\<open>change.text\<close>), a text document
  (\<^verbatim>\<open>document.uri.fsPath\<close> and its lines) and the change event.
\<close>

record Position =
  line :: int
  character :: int

record VsRange =
  start_p :: Position
  end_p :: Position

record ContentChange =
  range_c :: VsRange
  text_c :: string

record TextDocument =
  fsPath :: string
  lines_d :: "string list"

record TextDocumentChangeEvent =
  document :: TextDocument
  contentChanges :: "ContentChange list"

datatype error = IllegalLine int

section \<open>Text helpers\<close>

text \<open>
  Text is a list of 8-bit characters, so the model covers documents whose code units are
  below 256. In that range the characters matched by the regular expression class
  \<^verbatim>\<open>\s\<close>, and removed by \<^verbatim>\<open>trim\<close> and \<^verbatim>\<open>trimEnd\<close>, are TAB, LF, VT, FF, CR,
  space and the no-break space.
\<close>

definition isWhitespace :: "char \<Rightarrow> bool" where
  "isWhitespace c \<longleftrightarrow> (of_char c :: nat) \<in> {9, 10, 11, 12, 13, 32, 160}"

definition newline :: char where
  "newline = CHR 0x0A"

text \<open>\<^verbatim>\<open>lineText.search(/\S/)\<close>: index of the first non-whitespace character, or -1.\<close>

definition search_nonws :: "string \<Rightarrow> int" where
  "search_nonws s =
     (if \<forall>c \<in> set s. isWhitespace c then - 1
      else int (length (takeWhile isWhitespace s)))"

definition trimEnd :: "string \<Rightarrow> string" where
  "trimEnd s = rev (dropWhile isWhitespace (rev s))"

definition trim :: "string \<Rightarrow> string" where
  "trim s = dropWhile isWhitespace (trimEnd s)"

text \<open>\<^verbatim>\<open>(change.text.match(/\n/g) || []).length\<close>\<close>

definition countNewlines :: "string \<Rightarrow> int" where
  "countNewlines s = int (length (filter (\<lambda>c. c = newline) s))"

definition lineCount :: "TextDocument \<Rightarrow> int" where
  "lineCount d = int (length (lines_d d))"

text \<open>\<^verbatim>\<open>document.lineAt(n)\<close> throws when \<open>n\<close> is not a line of the document.\<close>

definition lineAt :: "TextDocument \<Rightarrow> int \<Rightarrow> error + string" where
  "lineAt d n =
     (if 0 \<le> n \<and> n < lineCount d then Inr (lines_d d ! nat n) else Inl (IllegalLine n))"

section \<open>Range adjustment\<close>

record Adjustment =
  shouldModify :: bool
  startLineDelta :: int
  endLineDelta :: "int option"

definition isInsertionBeforeContent :: "TextDocument \<Rightarrow> int \<Rightarrow> int \<Rightarrow> error + bool" where
  "isInsertionBeforeContent d lineNumber insertionColumn =
     (case lineAt d lineNumber of
        Inl e \<Rightarrow> Inl e
      | Inr lineText \<Rightarrow>
          (let firstNonWhitespace = search_nonws lineText
           in Inr (firstNonWhitespace = - 1 \<or> insertionColumn \<le> firstNonWhitespace)))"

definition isInsertionAfterContent :: "TextDocument \<Rightarrow> int \<Rightarrow> int \<Rightarrow> error + bool" where
  "isInsertionAfterContent d lineNumber insertionColumn =
     (case lineAt d lineNumber of
        Inl e \<Rightarrow> Inl e
      | Inr lineText \<Rightarrow>
          (let lastNonWhitespace = int (length (trimEnd lineText))
           in Inr (insertionColumn < lastNonWhitespace)))"

definition shouldExpandForNewlineInsertion ::
    "TextDocument \<Rightarrow> int \<Rightarrow> int \<Rightarrow> error + bool" where
  "shouldExpandForNewlineInsertion d changeStartLine insertionColumn =
     (case lineAt d changeStartLine of
        Inl e \<Rightarrow> Inl e
      | Inr currentLineText \<Rightarrow>
          (let nextLineExists = (changeStartLine + 1 < lineCount d)
           in case (if nextLineExists then lineAt d (changeStartLine + 1) else Inr [])
              of Inl e \<Rightarrow> Inl e
               | Inr nextLineText \<Rightarrow>
                   (let nextLineHasContent = (length (trim nextLineText) > 0);
                        currentLineHasContentAfterInsertion =
                          (insertionColumn < int (length (trimEnd currentLineText)))
                    in Inr (nextLineHasContent \<or> currentLineHasContentAfterInsertion))))"

definition shouldExpandRangeAtEnd ::
    "ContentChange \<Rightarrow> TextDocument \<Rightarrow> int \<Rightarrow> int \<Rightarrow> int \<Rightarrow> error + bool" where
  "shouldExpandRangeAtEnd change d changeStartLine insertionColumn netLineChange =
     (if newline \<in> set (text_c change) \<and> netLineChange > 0
      then shouldExpandForNewlineInsertion d changeStartLine insertionColumn
      else isInsertionAfterContent d changeStartLine insertionColumn)"

definition handleChangeAtRangeStart ::
    "ContentChange \<Rightarrow> TextDocument \<Rightarrow> int \<Rightarrow> int \<Rightarrow> error + Adjustment" where
  "handleChangeAtRangeStart change d changeStartLine netLineChange =
     (let insertionColumn = character (start_p (range_c change))
      in case isInsertionBeforeContent d changeStartLine insertionColumn of
           Inl e \<Rightarrow> Inl e
         | Inr before \<Rightarrow>
             (if before
              then Inr \<lparr>shouldModify = True, startLineDelta = netLineChange,
                        endLineDelta = Some netLineChange\<rparr>
              else Inr \<lparr>shouldModify = True, startLineDelta = 0,
                        endLineDelta = Some netLineChange\<rparr>))"

definition handleChangeAtRangeEnd ::
    "ContentChange \<Rightarrow> TextDocument \<Rightarrow> int \<Rightarrow> int \<Rightarrow> error + Adjustment" where
  "handleChangeAtRangeEnd change d changeStartLine netLineChange =
     (let insertionColumn = character (start_p (range_c change))
      in case shouldExpandRangeAtEnd change d changeStartLine insertionColumn netLineChange of
           Inl e \<Rightarrow> Inl e
         | Inr expand \<Rightarrow>
             (if expand
              then Inr \<lparr>shouldModify = True, startLineDelta = 0,
                        endLineDelta = Some netLineChange\<rparr>
              else Inr \<lparr>shouldModify = False, startLineDelta = 0, endLineDelta = None\<rparr>))"

definition calculateRangeAdjustment ::
    "int \<Rightarrow> int \<Rightarrow> int \<Rightarrow> int \<Rightarrow> ContentChange \<Rightarrow> TextDocument \<Rightarrow> error + Adjustment" where
  "calculateRangeAdjustment changeStartLine netLineChange rangeStart rangeEnd change d =
     (if changeStartLine < rangeStart
      then Inr \<lparr>shouldModify = True, startLineDelta = netLineChange,
                endLineDelta = Some netLineChange\<rparr>
      else if changeStartLine = rangeStart
      then handleChangeAtRangeStart change d changeStartLine netLineChange
      else if changeStartLine > rangeStart \<and> changeStartLine < rangeEnd
      then Inr \<lparr>shouldModify = True, startLineDelta = 0, endLineDelta = Some netLineChange\<rparr>
      else if changeStartLine = rangeEnd
      then handleChangeAtRangeEnd change d changeStartLine netLineChange
      else Inr \<lparr>shouldModify = False, startLineDelta = 0, endLineDelta = None\<rparr>)"

text \<open>
  \<^verbatim>\<open>validateRangeBounds\<close>. The test \<^verbatim>\<open>validatedRange.endLine && ...\<close> is a truthiness
  test: it fails for \<^verbatim>\<open>undefined\<close> and also for the number 0.
\<close>

definition validateRangeBounds :: "NvtxRange \<Rightarrow> NvtxRange" where
  "validateRangeBounds r =
     (let r1 = (if startLine r < 1 then r\<lparr>startLine := 1\<rparr> else r)
      in case endLine r1 of
           None \<Rightarrow> r1
         | Some e \<Rightarrow> if e \<noteq> 0 \<and> e < startLine r1 then r1\<lparr>endLine := Some (startLine r1)\<rparr> else r1)"

definition changeStartLine_of :: "ContentChange \<Rightarrow> int" where
  "changeStartLine_of change = line (start_p (range_c change))"

definition linesAdded :: "ContentChange \<Rightarrow> int" where
  "linesAdded change = countNewlines (text_c change)"

definition linesRemoved :: "ContentChange \<Rightarrow> int" where
  "linesRemoved change = line (end_p (range_c change)) - line (start_p (range_c change))"

definition netLineChange_of :: "ContentChange \<Rightarrow> int" where
  "netLineChange_of change = linesAdded change - linesRemoved change"

text \<open>
  The callback of \<^verbatim>\<open>ranges.map\<close> in \<^verbatim>\<open>handleTextDocumentChange\<close>, for one content
  change. It returns the new range together with the value the callback gives to
  \<^verbatim>\<open>rangesModified\<close> (\<open>True\<close> when it sets the flag). The tests \<^verbatim>\<open>range.endLine ? ...\<close>
  and \<^verbatim>\<open>newRange.endLine && ...\<close> are truthiness tests again.
\<close>

definition adjustRange ::
    "string \<Rightarrow> TextDocument \<Rightarrow> ContentChange \<Rightarrow> NvtxRange \<Rightarrow> error + (NvtxRange \<times> bool)" where
  "adjustRange currentFilePath d change r =
     (if filePath r \<noteq> currentFilePath then Inr (r, False)
      else
        (let rangeStart = startLine r - 1;
             rangeEnd = (case endLine r of
                           None \<Rightarrow> rangeStart
                         | Some e \<Rightarrow> if e \<noteq> 0 then e - 1 else rangeStart)
         in case calculateRangeAdjustment (changeStartLine_of change) (netLineChange_of change)
                   rangeStart rangeEnd change d of
              Inl e \<Rightarrow> Inl e
            | Inr adjustment \<Rightarrow>
                (if shouldModify adjustment
                 then
                   (let r1 = r\<lparr>startLine := startLine r + startLineDelta adjustment\<rparr>;
                        r2 = (case (endLine r1, endLineDelta adjustment) of
                                (Some e, Some dl) \<Rightarrow>
                                  if e \<noteq> 0 then r1\<lparr>endLine := Some (e + dl)\<rparr> else r1
                              | _ \<Rightarrow> r1)
                    in Inr (validateRangeBounds r2, True))
                 else Inr (validateRangeBounds r, False))))"

text \<open>\<^verbatim>\<open>ranges.map(...)\<close>: the callback on every range, in order; a throw ends the map.\<close>

fun mapRanges ::
    "(NvtxRange \<Rightarrow> error + (NvtxRange \<times> bool)) \<Rightarrow> NvtxRange list \<Rightarrow>
     error + (NvtxRange list \<times> bool)" where
  "mapRanges f [] = Inr ([], False)"
| "mapRanges f (r # rs) =
     (case f r of
        Inl e \<Rightarrow> Inl e
      | Inr (r', m) \<Rightarrow>
          (case mapRanges f rs of
             Inl e \<Rightarrow> Inl e
           | Inr (rs', m') \<Rightarrow> Inr (r' # rs', m \<or> m')))"

text \<open>
  The loop \<^verbatim>\<open>for (const change of event.contentChanges)\<close>, with the variables
  \<^verbatim>\<open>ranges\<close> and \<^verbatim>\<open>rangesModified\<close> as accumulators.
\<close>

fun processChanges ::
    "string \<Rightarrow> TextDocument \<Rightarrow> ContentChange list \<Rightarrow> NvtxRange list \<Rightarrow> bool \<Rightarrow>
     error + (NvtxRange list \<times> bool)" where
  "processChanges currentFilePath d [] ranges rangesModified = Inr (ranges, rangesModified)"
| "processChanges currentFilePath d (change # changes) ranges rangesModified =
     (if netLineChange_of change = 0
      then processChanges currentFilePath d changes ranges rangesModified
      else
        (case mapRanges (adjustRange currentFilePath d change) ranges of
           Inl e \<Rightarrow> Inl e
         | Inr (ranges', m) \<Rightarrow>
             processChanges currentFilePath d changes ranges' (rangesModified \<or> m)))"

section \<open>Range store\<close>

text \<open>
  The state the store runs against: the workspace folders, the files on disk, whether
  the next write fails, the document of the active editor, and the error messages
  shown to the user so far. A file that exists but cannot be read is \<open>Unreadable\<close>
  with the error's text. Thrown errors are modelled by their text. Folders are not
  modelled: a write that succeeds has created \<^verbatim>\<open>.vscode\<close> where it was missing, and
  \<^verbatim>\<open>path.join\<close> is concatenation with a slash. The test
  \<^verbatim>\<open>event.document !== activeTextEditor.document\<close> compares object identities; the
  editor keeps one document object per file, so the model compares the documents.
\<close>

datatype FileEntry = Content string | Unreadable string

record Workspace =
  workspaceFolders :: "string list"
  files :: "string \<rightharpoonup> FileEntry"
  writeFailure :: "string option"
  activeDocument :: "TextDocument option"
  messages :: "string list"

text \<open>
  \<^verbatim>\<open>JSON.parse\<close> and \<^verbatim>\<open>JSON.stringify\<close> belong to the language runtime and are
  parameters of the model. \<open>json_parse\<close> returns \<open>Inl\<close> with the error's text where
  \<^verbatim>\<open>JSON.parse\<close> throws. The source casts the parsed value to \<^verbatim>\<open>NvtxRange[]\<close>
  unchecked; text that parses to anything else is outside the model.
\<close>

record JsonCodec =
  json_parse :: "string \<Rightarrow> string + NvtxRange list"
  json_stringify :: "NvtxRange list \<Rightarrow> string"

definition RANGES_FILE_NAME :: string where
  "RANGES_FILE_NAME = ''nvtx_ranges.json''"

definition getRangesFilePath :: "Workspace \<Rightarrow> string + string" where
  "getRangesFilePath ws =
     (case workspaceFolders ws of
        [] \<Rightarrow> Inl ''Error: Workspace not found. Please open a folder.''
      | workspacePath # _ \<Rightarrow> Inr (workspacePath @ ''/.vscode/'' @ RANGES_FILE_NAME))"

definition showErrorMessage :: "string \<Rightarrow> Workspace \<Rightarrow> Workspace" where
  "showErrorMessage m ws = ws\<lparr>messages := messages ws @ [m]\<rparr>"

definition readRanges :: "JsonCodec \<Rightarrow> Workspace \<Rightarrow> NvtxRange list \<times> Workspace" where
  "readRanges J ws =
     (case getRangesFilePath ws of
        Inl e \<Rightarrow> ([], showErrorMessage (''Error reading NVTX ranges: '' @ e) ws)
      | Inr p \<Rightarrow>
          (case files ws p of
             None \<Rightarrow> ([], ws)
           | Some (Unreadable e) \<Rightarrow>
               ([], showErrorMessage (''Error reading NVTX ranges: '' @ e) ws)
           | Some (Content fileContent) \<Rightarrow>
               (let contentString = trim fileContent
                in if contentString = [] then ([], ws)
                   else case json_parse J contentString of
                          Inl e \<Rightarrow>
                            ([], showErrorMessage (''Error reading NVTX ranges: '' @ e) ws)
                        | Inr ranges \<Rightarrow> (ranges, ws))))"

definition writeRanges :: "JsonCodec \<Rightarrow> NvtxRange list \<Rightarrow> Workspace \<Rightarrow> Workspace" where
  "writeRanges J ranges ws =
     (case getRangesFilePath ws of
        Inl e \<Rightarrow> showErrorMessage (''Error writing NVTX ranges: '' @ e) ws
      | Inr p \<Rightarrow>
          (case writeFailure ws of
             Some e \<Rightarrow> showErrorMessage (''Error writing NVTX ranges: '' @ e) ws
           | None \<Rightarrow> ws\<lparr>files := (files ws)(p \<mapsto> Content (json_stringify J ranges))\<rparr>))"

definition addRange :: "JsonCodec \<Rightarrow> NvtxRange \<Rightarrow> Workspace \<Rightarrow> Workspace" where
  "addRange J r ws = (case readRanges J ws of (ranges, ws1) \<Rightarrow> writeRanges J (ranges @ [r]) ws1)"

definition deleteRange :: "JsonCodec \<Rightarrow> string \<Rightarrow> Workspace \<Rightarrow> bool \<times> Workspace" where
  "deleteRange J rangeId ws =
     (case readRanges J ws of
        (ranges, ws1) \<Rightarrow>
          (let initialLength = length ranges;
               updatedRanges = filter (\<lambda>r. id_r r \<noteq> rangeId) ranges
           in if length updatedRanges \<noteq> initialLength
              then (True, writeRanges J updatedRanges ws1)
              else (False, ws1)))"

text \<open>
  \<^verbatim>\<open>Partial<NvtxRange>\<close>: every field may be missing. \<^verbatim>\<open>Object.assign\<close> writes the
  fields that are there into the first range \<^verbatim>\<open>find\<close> returns, which is an element of
  the array that is then written back.
\<close>

record RangeUpdates =
  u_id :: "string option"
  u_name :: "string option"
  u_filePath :: "string option"
  u_type :: "RangeType option"
  u_startLine :: "int option"
  u_endLine :: "int option option"
  u_isEnabled :: "bool option"

definition assignUpdates :: "RangeUpdates \<Rightarrow> NvtxRange \<Rightarrow> NvtxRange" where
  "assignUpdates u r =
     \<lparr>id_r = (case u_id u of None \<Rightarrow> id_r r | Some v \<Rightarrow> v),
      name = (case u_name u of None \<Rightarrow> name r | Some v \<Rightarrow> v),
      filePath = (case u_filePath u of None \<Rightarrow> filePath r | Some v \<Rightarrow> v),
      type_r = (case u_type u of None \<Rightarrow> type_r r | Some v \<Rightarrow> v),
      startLine = (case u_startLine u of None \<Rightarrow> startLine r | Some v \<Rightarrow> v),
      endLine = (case u_endLine u of None \<Rightarrow> endLine r | Some v \<Rightarrow> v),
      isEnabled = (case u_isEnabled u of None \<Rightarrow> isEnabled r | Some v \<Rightarrow> v)\<rparr>"

fun updateFirst :: "('a \<Rightarrow> bool) \<Rightarrow> ('a \<Rightarrow> 'a) \<Rightarrow> 'a list \<Rightarrow> 'a list" where
  "updateFirst P f [] = []"
| "updateFirst P f (x # xs) = (if P x then f x # xs else x # updateFirst P f xs)"

definition updateRange ::
    "JsonCodec \<Rightarrow> string \<Rightarrow> RangeUpdates \<Rightarrow> Workspace \<Rightarrow> bool \<times> Workspace" where
  "updateRange J rangeId updates ws =
     (case readRanges J ws of
        (ranges, ws1) \<Rightarrow>
          (case find (\<lambda>r. id_r r = rangeId) ranges of
             Some targetRange \<Rightarrow>
               (True, writeRanges J
                        (updateFirst (\<lambda>r. id_r r = rangeId) (assignUpdates updates) ranges) ws1)
           | None \<Rightarrow> (False, ws1)))"

definition toggleRangeEnabled :: "JsonCodec \<Rightarrow> string \<Rightarrow> Workspace \<Rightarrow> bool \<times> Workspace" where
  "toggleRangeEnabled J rangeId ws =
     (case readRanges J ws of
        (ranges, ws1) \<Rightarrow>
          (case find (\<lambda>r. id_r r = rangeId) ranges of
             Some targetRange \<Rightarrow>
               (True, writeRanges J
                        (updateFirst (\<lambda>r. id_r r = rangeId)
                           (\<lambda>r. r\<lparr>isEnabled := \<not> isEnabled r\<rparr>) ranges) ws1)
           | None \<Rightarrow> (False, ws1)))"

text \<open>
  \<^verbatim>\<open>generateUniqueId\<close> reads the clock: \<^verbatim>\<open>Date.now()\<close> is the number of milliseconds
  since the epoch, an input of the model. \<open>toString\<close> is the decimal rendering of
  \<^verbatim>\<open>Number.prototype.toString\<close> on a non-negative integer; \<open>digitChar\<close> is only
  applied to numbers below 10. The default values of the parameters \<^verbatim>\<open>type\<close> and
  \<^verbatim>\<open>isEnabled\<close> are left to the caller.
\<close>

definition digitChar :: "nat \<Rightarrow> char" where
  "digitChar k = ''0123456789'' ! k"

function toString :: "nat \<Rightarrow> string" where
  "toString n = (if n < 10 then [digitChar n] else toString (n div 10) @ [digitChar (n mod 10)])"
  by pat_completeness auto
termination
  by (relation "measure (\<lambda>n. n)") auto

declare toString.simps [simp del]

definition generateUniqueId :: "nat \<Rightarrow> string" where
  "generateUniqueId now = toString now"

definition createRange ::
    "nat \<Rightarrow> string \<Rightarrow> string \<Rightarrow> int \<Rightarrow> int option \<Rightarrow> RangeType \<Rightarrow> bool \<Rightarrow> NvtxRange" where
  "createRange now nm fp sl el ty en =
     \<lparr>id_r = generateUniqueId now, name = nm, filePath = fp, type_r = ty,
      startLine = sl, endLine = el, isEnabled = en\<rparr>"

text \<open>\<^verbatim>\<open>validateRange\<close>, which tests \<^verbatim>\<open>endLine !== undefined\<close>.\<close>

definition validateRange :: "NvtxRange \<Rightarrow> bool \<times> string list" where
  "validateRange r =
     (let errors =
            (if id_r r = [] then [''Range ID is required''] else []) @
            (if name r = [] \<or> trim (name r) = [] then [''Range name is required''] else []) @
            (if filePath r = [] then [''File path is required''] else []) @
            (if startLine r < 1 then [''Start line must be >= 1''] else []) @
            (if type_r r = Block \<and> (case endLine r of None \<Rightarrow> False | Some e \<Rightarrow> e < startLine r)
             then [''End line must be >= start line''] else [])
      in (errors = [], errors))"

text \<open>
  \<^verbatim>\<open>handleTextDocumentChange\<close>. The result is the error that rejects the promise, if
  any, and the new state. The calls to \<^verbatim>\<open>onRangesChanged\<close> and
  \<^verbatim>\<open>updateDecorations\<close> touch no range and are left out.
\<close>

definition handleTextDocumentChange ::
    "JsonCodec \<Rightarrow> TextDocumentChangeEvent \<Rightarrow> Workspace \<Rightarrow> error option \<times> Workspace" where
  "handleTextDocumentChange J event ws =
     (if activeDocument ws \<noteq> Some (document event) then (None, ws)
      else
        (let currentFilePath = fsPath (document event)
         in case readRanges J ws of
              (ranges, ws1) \<Rightarrow>
                (case processChanges currentFilePath (document event) (contentChanges event)
                        ranges False of
                   Inl e \<Rightarrow> (Some e, ws1)
                 | Inr (ranges', rangesModified) \<Rightarrow>
                     (None, if rangesModified then writeRanges J ranges' ws1 else ws1))))"

section \<open>The editor's side of a change event\<close>

text \<open>
  The editor raises the change event after it has applied the change:
  \<^verbatim>\<open>event.document\<close> holds the new text, while \<^verbatim>\<open>change.range\<close> is the range that
  was replaced, in the coordinates of the old text. \<open>applyChange\<close> states this contract
  for one change on the lines of the old text, with lines separated by LF. It is not code
  of the range manager; it relates the text before the edit to the text the handler reads.
\<close>

fun splitLines :: "string \<Rightarrow> string list" where
  "splitLines [] = [[]]"
| "splitLines (c # cs) =
     (if c = newline then [] # splitLines cs
      else (case splitLines cs of [] \<Rightarrow> [[c]] | l # ls \<Rightarrow> (c # l) # ls))"


definition applyChange :: "string list \<Rightarrow> ContentChange \<Rightarrow> string list" where
  "applyChange pre change =
     (let s = start_p (range_c change); e = end_p (range_c change)
      in take (nat (line s)) pre @
         splitLines (take (nat (character s)) (pre ! nat (line s)) @ text_c change @
                     drop (nat (character e)) (pre ! nat (line e))) @
         drop (nat (line e) + 1) pre)"

section \<open>The specification's wording\<close>

text \<open>
  The conditions of the at-start and at-end rules as the specification words them, to be
  compared with what the code computes. An insertion column is at or before the first
  non-whitespace column, or the line is blank, exactly when no non-whitespace character
  stands before the column.
\<close>

definition insertedBeforeContent :: "string \<Rightarrow> int \<Rightarrow> bool" where
  "insertedBeforeContent lineText col \<longleftrightarrow>
     (\<forall>i \<in> {0..<length lineText}. \<not> isWhitespace (lineText ! i) \<longrightarrow> col \<le> int i)"

definition hasContent :: "string \<Rightarrow> bool" where
  "hasContent lineText \<longleftrightarrow> (\<exists>c \<in> set lineText. \<not> isWhitespace c)"

definition hasContentFrom :: "int \<Rightarrow> string \<Rightarrow> bool" where
  "hasContentFrom col lineText \<longleftrightarrow>
     (\<exists>i \<in> {0..<length lineText}. col \<le> int i \<and> \<not> isWhitespace (lineText ! i))"

definition nextLineOf :: "TextDocument \<Rightarrow> int \<Rightarrow> string" where
  "nextLineOf d n = (if n + 1 < lineCount d then lines_d d ! nat (n + 1) else [])"

definition withinBounds :: "NvtxRange \<Rightarrow> bool" where
  "withinBounds r \<longleftrightarrow>
     1 \<le> startLine r \<and> (case endLine r of None \<Rightarrow> True | Some e \<Rightarrow> startLine r \<le> e)"


text \<open>Fixtures for the concrete scenarios.\<close>

abbreviation mkChange :: "int \<Rightarrow> int \<Rightarrow> int \<Rightarrow> int \<Rightarrow> string \<Rightarrow> ContentChange" where
  "mkChange sl sc el ec t \<equiv>
     \<lparr>range_c = \<lparr>start_p = \<lparr>line = sl, character = sc\<rparr>,
                 end_p = \<lparr>line = el, character = ec\<rparr>\<rparr>,
      text_c = t\<rparr>"

abbreviation mkBlock :: "string \<Rightarrow> int \<Rightarrow> int \<Rightarrow> NvtxRange" where
  "mkBlock fp s e \<equiv>
     \<lparr>id_r = ''1700000000000'', name = ''forward'', filePath = fp, type_r = Block,
      startLine = s, endLine = Some e, isEnabled = True\<rparr>"

abbreviation mkDoc :: "string \<Rightarrow> string list \<Rightarrow> TextDocument" where
  "mkDoc fp ls \<equiv> \<lparr>fsPath = fp, lines_d = ls\<rparr>"

abbreviation exCodec :: JsonCodec where
  "exCodec \<equiv>
     \<lparr>json_parse = (\<lambda>s. if s = ''[]'' then Inr []
                         else if s = ''[r]'' then Inr [mkBlock ''/w/a.py'' 3 5]
                         else Inl ''SyntaxError: Unexpected end of JSON input''),
      json_stringify = (\<lambda>rs. if rs = [] then ''[]'' else ''[r]'')\<rparr>"

abbreviation exWorkspace :: "FileEntry option \<Rightarrow> Workspace" where
  "exWorkspace f \<equiv>
     \<lparr>workspaceFolders = [''/w''],
      files = (\<lambda>p. if p = ''/w/.vscode/nvtx_ranges.json'' then f else None),
      writeFailure = None, activeDocument = None, messages = []\<rparr>"

abbreviation mkEvent :: "string \<Rightarrow> int \<Rightarrow> NvtxRange" where
  "mkEvent fp s \<equiv>
     \<lparr>id_r = ''1700000000001'', name = ''mark'', filePath = fp, type_r = Event,
      startLine = s, endLine = None, isEnabled = True\<rparr>"

section \<open>Facts about the adjustment of one range\<close>

lemma validateRangeBounds_noop:
  "1 \<le> startLine r \<Longrightarrow>
   (case endLine r of None \<Rightarrow> True | Some e \<Rightarrow> e = 0 \<or> startLine r \<le> e) \<Longrightarrow>
   validateRangeBounds r = r"
  by (auto simp: validateRangeBounds_def split: option.splits)

lemma processChanges_single:
  "netLineChange_of c \<noteq> 0 \<Longrightarrow>
   processChanges cur d [c] [r] False =
     (case adjustRange cur d c r of Inl e \<Rightarrow> Inl e | Inr (r', m) \<Rightarrow> Inr ([r'], m))"
  by (simp split: sum.splits prod.splits)

lemmas change_simps =
  netLineChange_of_def changeStartLine_of_def linesAdded_def linesRemoved_def countNewlines_def

lemmas engine_simps =
  adjustRange_def calculateRangeAdjustment_def validateRangeBounds_def
  handleChangeAtRangeStart_def handleChangeAtRangeEnd_def isInsertionBeforeContent_def
  isInsertionAfterContent_def shouldExpandRangeAtEnd_def shouldExpandForNewlineInsertion_def
  lineAt_def lineCount_def search_nonws_def trimEnd_def trim_def isWhitespace_def newline_def

section \<open>Edits above a range\<close>

text \<open>
  Claim C3, as the code has it. An edit of the range's file whose start line is above
  the range's start line moves both boundaries by the net line change, and so keeps
  \<open>endLine - startLine\<close>, provided the moved start line is still at least 1 and the
  range has \<open>startLine \<le> endLine\<close>. When the edit removes more lines than lie above
  the range, \<^verbatim>\<open>validateRangeBounds\<close> clamps the start line to 1 instead.
\<close>

theorem edit_above_shifts_both:
  assumes "filePath r = cur" and "netLineChange_of c \<noteq> 0"
    and "0 \<le> changeStartLine_of c" and "changeStartLine_of c < startLine r - 1"
    and "1 \<le> startLine r + netLineChange_of c"
    and "\<forall>e. endLine r = Some e \<longrightarrow> startLine r \<le> e"
  shows "processChanges cur d [c] [r] False =
           Inr ([r\<lparr>startLine := startLine r + netLineChange_of c,
                   endLine := map_option (\<lambda>e. e + netLineChange_of c) (endLine r)\<rparr>], True)"
proof -
  let ?n = "netLineChange_of c"
  have adj: "calculateRangeAdjustment (changeStartLine_of c) ?n (startLine r - 1) x c d =
          Inr \<lparr>shouldModify = True, startLineDelta = ?n, endLineDelta = Some ?n\<rparr>" for x
    using assms(4) by (simp add: calculateRangeAdjustment_def)
  show ?thesis
  proof (cases "endLine r")
    case None
    then show ?thesis
      using assms by (simp add: processChanges_single adjustRange_def adj validateRangeBounds_noop)
  next
    case (Some e)
    with assms have "e \<noteq> 0" "startLine r \<le> e" by auto
    with Some show ?thesis
      using assms by (simp add: processChanges_single adjustRange_def adj validateRangeBounds_noop)
  qed
qed

text \<open>
  The scenario of the specification: the range 10 to 15 and an edit that inserts two
  line breaks on the fifth line (index 4), column 0, give the range 12 to 17.
\<close>

theorem edit_above_shifts_both_witness:
  "processChanges ''/w/a.py'' (mkDoc ''/w/a.py'' (replicate 20 ''    pass''))
     [mkChange 4 0 4 0 [newline, newline]] [mkBlock ''/w/a.py'' 10 15] False =
   Inr ([mkBlock ''/w/a.py'' 12 17], True)"
  using edit_above_shifts_both [of "mkBlock ''/w/a.py'' 10 15" "''/w/a.py''"
      "mkChange 4 0 4 0 [newline, newline]" "mkDoc ''/w/a.py'' (replicate 20 ''    pass'')"]
  by (simp add: change_simps)

text \<open>
  Without the proviso the claim fails: the range 3 to 10 and an edit that starts on
  line index 0, above the range, and removes five lines. The shift by -5 would give
  the start line -2; the code returns the range 1 to 5, and \<open>endLine - startLine\<close>
  goes from 7 to 4.
\<close>

theorem edit_above_clamped_counterexample:
  "changeStartLine_of (mkChange 0 0 5 0 []) < startLine (mkBlock ''/w/a.py'' 3 10) - 1 \<and>
   netLineChange_of (mkChange 0 0 5 0 []) = - 5 \<and>
   processChanges ''/w/a.py'' (mkDoc ''/w/a.py'' (replicate 20 ''    pass''))
     [mkChange 0 0 5 0 []] [mkBlock ''/w/a.py'' 3 10] False =
   Inr ([mkBlock ''/w/a.py'' 1 5], True) \<and>
   processChanges ''/w/a.py'' (mkDoc ''/w/a.py'' (replicate 20 ''    pass''))
     [mkChange 0 0 5 0 []] [mkBlock ''/w/a.py'' 3 10] False \<noteq>
   Inr ([mkBlock ''/w/a.py'' (3 + - 5) (10 + - 5)], True)"
  by (simp add: change_simps adjustRange_def calculateRangeAdjustment_def
      validateRangeBounds_def)

text \<open>
  The proviso holds for every edit that ends above the range's start line, and for
  every edit that removes no more lines than it inserts.
\<close>

lemma countNewlines_nonneg: "0 \<le> countNewlines s"
  by (simp add: countNewlines_def)

lemma edit_entirely_above_no_clamp:
  assumes "0 \<le> changeStartLine_of c"
    and "line (end_p (range_c c)) < startLine r - 1"
  shows "1 \<le> startLine r + netLineChange_of c"
  using assms countNewlines_nonneg [of "text_c c"]
  by (simp add: change_simps)

text \<open>Where the proviso fails, the start line becomes 1.\<close>

lemma edit_above_clamps_start:
  assumes "filePath r = cur" and "netLineChange_of c \<noteq> 0"
    and "changeStartLine_of c < startLine r - 1"
    and "startLine r + netLineChange_of c < 1"
  shows "\<exists>r'. processChanges cur d [c] [r] False = Inr ([r'], True) \<and> startLine r' = 1"
proof -
  let ?n = "netLineChange_of c"
  have adj: "calculateRangeAdjustment (changeStartLine_of c) ?n (startLine r - 1) x c d =
          Inr \<lparr>shouldModify = True, startLineDelta = ?n, endLineDelta = Some ?n\<rparr>" for x
    using assms(3) by (simp add: calculateRangeAdjustment_def)
  show ?thesis
    using assms(1,2,4)
    by (auto simp: processChanges_single adjustRange_def adj validateRangeBounds_def Let_def
        split: option.splits)
qed

section \<open>Edits inside a range\<close>

lemma validateRangeBounds_end:
  "1 \<le> startLine r \<Longrightarrow>
   validateRangeBounds (r\<lparr>endLine := Some x\<rparr>) =
     r\<lparr>endLine := Some (if x \<noteq> 0 \<and> x < startLine r then startLine r else x)\<rparr>"
  by (simp add: validateRangeBounds_def)

text \<open>
  Claim C4, as the code has it. For a range with \<open>1 \<le> startLine\<close>, an edit of its
  file with non-zero net line change whose start line lies strictly between the range's
  start line and end line changes only \<open>endLine\<close>: the start line and every other
  field stay as they are. The end line changes by exactly the net line change provided
  the new end line is not above the start line.
\<close>

theorem edit_inside_grows_end:
  assumes "filePath r = cur" and "netLineChange_of c \<noteq> 0" and "endLine r = Some e"
    and "1 \<le> startLine r"
    and "startLine r - 1 < changeStartLine_of c" and "changeStartLine_of c < e - 1"
  shows "\<exists>e'. processChanges cur d [c] [r] False = Inr ([r\<lparr>endLine := Some e'\<rparr>], True) \<and>
              (startLine r \<le> e + netLineChange_of c \<longrightarrow> e' = e + netLineChange_of c)"
proof -
  let ?n = "netLineChange_of c"
  have e0: "e \<noteq> 0" using assms by linarith
  have adj: "calculateRangeAdjustment (changeStartLine_of c) ?n (startLine r - 1) (e - 1) c d =
          Inr \<lparr>shouldModify = True, startLineDelta = 0, endLineDelta = Some ?n\<rparr>"
    using assms(5,6) by (simp add: calculateRangeAdjustment_def)
  have "processChanges cur d [c] [r] False =
          Inr ([validateRangeBounds (r\<lparr>endLine := Some (e + ?n)\<rparr>)], True)"
    using assms(1,2,3) e0 by (simp add: processChanges_single adjustRange_def adj)
  then have "processChanges cur d [c] [r] False =
          Inr ([r\<lparr>endLine := Some (if e + ?n \<noteq> 0 \<and> e + ?n < startLine r
                                       then startLine r else e + ?n)\<rparr>], True)"
    using assms(4) by (simp only: validateRangeBounds_end)
  moreover have "startLine r \<le> e + ?n \<longrightarrow>
      (if e + ?n \<noteq> 0 \<and> e + ?n < startLine r then startLine r else e + ?n) = e + ?n"
    by simp
  ultimately show ?thesis by blast
qed

theorem edit_inside_grows_end_witness:
  "processChanges ''/w/a.py'' (mkDoc ''/w/a.py'' (replicate 20 ''    pass''))
     [mkChange 3 2 3 2 [newline]] [mkBlock ''/w/a.py'' 3 6] False =
   Inr ([mkBlock ''/w/a.py'' 3 7], True)"
  using edit_inside_grows_end [of "mkBlock ''/w/a.py'' 3 6" "''/w/a.py''"
      "mkChange 3 2 3 2 [newline]" 6 "mkDoc ''/w/a.py'' (replicate 20 ''    pass'')"]
  by (auto simp: change_simps)

text \<open>
  Without the proviso the claim fails: the range 3 to 6 and an edit that starts on line
  index 3, strictly inside the range, and removes ten lines. The code returns the range
  3 to 3: the end line changed by -3, not by -10.
\<close>

theorem edit_inside_clamped_counterexample:
  "startLine (mkBlock ''/w/a.py'' 3 6) - 1 < changeStartLine_of (mkChange 3 0 13 0 []) \<and>
   changeStartLine_of (mkChange 3 0 13 0 []) < 6 - 1 \<and>
   netLineChange_of (mkChange 3 0 13 0 []) = - 10 \<and>
   processChanges ''/w/a.py'' (mkDoc ''/w/a.py'' (replicate 20 ''    pass''))
     [mkChange 3 0 13 0 []] [mkBlock ''/w/a.py'' 3 6] False =
   Inr ([mkBlock ''/w/a.py'' 3 3], True) \<and>
   processChanges ''/w/a.py'' (mkDoc ''/w/a.py'' (replicate 20 ''    pass''))
     [mkChange 3 0 13 0 []] [mkBlock ''/w/a.py'' 3 6] False \<noteq>
   Inr ([mkBlock ''/w/a.py'' 3 (6 + - 10)], True)"
  by (simp add: change_simps adjustRange_def calculateRangeAdjustment_def
      validateRangeBounds_def)

text \<open>The proviso holds for every edit that ends before the range's end line.\<close>

lemma edit_entirely_inside_no_clamp:
  assumes "startLine r - 1 < changeStartLine_of c"
    and "line (end_p (range_c c)) < e - 1"
  shows "startLine r \<le> e + netLineChange_of c"
  using assms countNewlines_nonneg [of "text_c c"]
  by (simp add: change_simps)

section \<open>Edits that keep the number of lines\<close>

lemma processChanges_zero:
  "\<forall>c \<in> set cs. netLineChange_of c = 0 \<Longrightarrow> processChanges cur d cs rs m = Inr (rs, m)"
  by (induction cs) auto

lemma processChanges_skip_zero:
  assumes "\<forall>c \<in> set zs. netLineChange_of c = 0"
  shows "processChanges cur d (cs1 @ zs @ cs2) rs m = processChanges cur d (cs1 @ cs2) rs m"
proof (induction cs1 arbitrary: rs m)
  case Nil
  from assms show ?case
    by (induction zs) simp_all
next
  case (Cons c cs1)
  then show ?case
    by (simp split: sum.splits prod.splits)
qed

lemma readRanges_state:
  "snd (readRanges J ws) = ws \<or> (\<exists>msg. snd (readRanges J ws) = showErrorMessage msg ws)"
  by (auto simp: readRanges_def Let_def split: sum.splits option.splits FileEntry.splits)

lemma readRanges_files [simp]: "files (snd (readRanges J ws)) = files ws"
  using readRanges_state [of J ws] by (auto simp: showErrorMessage_def)

lemma readRanges_folders [simp]: "workspaceFolders (snd (readRanges J ws)) = workspaceFolders ws"
  using readRanges_state [of J ws] by (auto simp: showErrorMessage_def)

lemma fst_readRanges:
  "fst (readRanges J ws) =
     (case getRangesFilePath ws of
        Inl e \<Rightarrow> []
      | Inr p \<Rightarrow>
          (case files ws p of
             None \<Rightarrow> []
           | Some (Unreadable e) \<Rightarrow> []
           | Some (Content fileContent) \<Rightarrow>
               (if trim fileContent = [] then []
                else case json_parse J (trim fileContent) of Inl e \<Rightarrow> [] | Inr ranges \<Rightarrow> ranges)))"
  by (simp add: readRanges_def Let_def split: sum.splits option.splits FileEntry.splits)

lemma readRanges_cong:
  "workspaceFolders ws' = workspaceFolders ws \<Longrightarrow> files ws' = files ws \<Longrightarrow>
   fst (readRanges J ws') = fst (readRanges J ws)"
  by (simp add: fst_readRanges getRangesFilePath_def cong: sum.case_cong)

text \<open>
  Claim C5. Content changes with net line change zero are skipped: wherever they stand
  among the changes of an event, the loop gives the result it gives without them. When
  every content change of an event has net line change zero, the loop returns the
  ranges it was given, whatever the positions, columns and inserted text of the changes
  and whatever the ranges are; the handler raises no error, writes no file, and a later
  read returns the same ranges as before.
\<close>

theorem zero_net_change_leaves_ranges:
  assumes "\<forall>c \<in> set (contentChanges ev). netLineChange_of c = 0"
  shows "processChanges cur d (cs1 @ contentChanges ev @ cs2) rs m =
           processChanges cur d (cs1 @ cs2) rs m \<and>
         processChanges (fsPath (document ev)) (document ev) (contentChanges ev) ranges False =
           Inr (ranges, False) \<and>
         fst (handleTextDocumentChange J ev ws) = None \<and>
         files (snd (handleTextDocumentChange J ev ws)) = files ws \<and>
         fst (readRanges J (snd (handleTextDocumentChange J ev ws))) = fst (readRanges J ws)"
proof -
  have p: "processChanges (fsPath (document ev)) (document ev) (contentChanges ev) rs False =
           Inr (rs, False)" for rs
    using assms by (rule processChanges_zero)
  have h: "handleTextDocumentChange J ev ws =
        (None, if activeDocument ws \<noteq> Some (document ev) then ws else snd (readRanges J ws))"
    by (simp add: handleTextDocumentChange_def p split: prod.splits)
  have r: "fst (readRanges J (snd (handleTextDocumentChange J ev ws))) = fst (readRanges J ws)"
    by (rule readRanges_cong) (simp_all add: h)
  have skip: "processChanges cur d (cs1 @ contentChanges ev @ cs2) rs m =
           processChanges cur d (cs1 @ cs2) rs m"
    using assms by (rule processChanges_skip_zero)
  show ?thesis
    using r skip by (simp add: p h)
qed

text \<open>
  Two changes with net line change zero: a character typed, and a line replaced by a
  line. The second range is not well formed and stays as it is.
\<close>

theorem zero_net_change_leaves_ranges_witness:
  "processChanges ''/w/a.py'' (mkDoc ''/w/a.py'' [''a = 3'', ''y = 20''])
     [mkChange 1 5 1 5 ''0'', mkChange 0 0 1 0 (''a = 3'' @ [newline])]
     [mkBlock ''/w/a.py'' 1 2, mkBlock ''/w/a.py'' 0 (- 4)] False =
   Inr ([mkBlock ''/w/a.py'' 1 2, mkBlock ''/w/a.py'' 0 (- 4)], False)"
  using zero_net_change_leaves_ranges
    [where ev = "\<lparr>document = mkDoc ''/w/a.py'' [''a = 3'', ''y = 20''],
          contentChanges = [mkChange 1 5 1 5 ''0'', mkChange 0 0 1 0 (''a = 3'' @ [newline])]\<rparr>"
       and ranges = "[mkBlock ''/w/a.py'' 1 2, mkBlock ''/w/a.py'' 0 (- 4)]"
       and J = exCodec and ws = "exWorkspace None"
       and cur = "''/w/a.py''" and d = "mkDoc ''/w/a.py'' [''a = 3'', ''y = 20'']"
       and ?cs1.0 = "[]" and ?cs2.0 = "[]"
       and rs = "[mkBlock ''/w/a.py'' 1 2, mkBlock ''/w/a.py'' 0 (- 4)]" and m = False]
  by (simp add: change_simps newline_def)

section \<open>What change processing leaves alone\<close>

lemma validateRangeBounds_frame:
  "id_r (validateRangeBounds r) = id_r r" "name (validateRangeBounds r) = name r"
  "filePath (validateRangeBounds r) = filePath r" "type_r (validateRangeBounds r) = type_r r"
  "isEnabled (validateRangeBounds r) = isEnabled r"
  "(endLine (validateRangeBounds r) = None) = (endLine r = None)"
  by (auto simp: validateRangeBounds_def Let_def split: option.splits)

lemma validateRangeBounds_withinBounds:
  "withinBounds (validateRangeBounds r) = (endLine r \<noteq> Some 0)"
  by (auto simp: validateRangeBounds_def withinBounds_def Let_def split: option.splits)

lemma validateRangeBounds_zero_end:
  "(endLine (validateRangeBounds r) = Some 0) = (endLine r = Some 0)"
  by (auto simp: validateRangeBounds_def Let_def split: option.splits)


lemma adjustRange_other_file:
  "filePath r \<noteq> cur \<Longrightarrow> adjustRange cur d c r = Inr (r, False)"
  by (simp add: adjustRange_def)

lemma adjustRange_validated:
  assumes "adjustRange cur d c r = Inr (r', m)" and "filePath r = cur"
  obtains r2 where "r' = validateRangeBounds r2" and "id_r r2 = id_r r" and "name r2 = name r"
    and "filePath r2 = filePath r" and "type_r r2 = type_r r" and "isEnabled r2 = isEnabled r"
    and "endLine r = None \<longrightarrow> endLine r2 = None"
  using assms
  by (auto simp: adjustRange_def Let_def split: sum.splits if_splits option.splits)

lemma adjustRange_frame:
  assumes "adjustRange cur d c r = Inr (r', m)"
  shows "id_r r' = id_r r \<and> name r' = name r \<and> filePath r' = filePath r \<and>
         type_r r' = type_r r \<and> isEnabled r' = isEnabled r \<and>
         (filePath r \<noteq> cur \<longrightarrow> r' = r) \<and> (endLine r = None \<longrightarrow> endLine r' = None)"
proof (cases "filePath r = cur")
  case False
  with assms show ?thesis by (simp add: adjustRange_other_file)
next
  case True
  from assms True obtain r2 where "r' = validateRangeBounds r2" and "id_r r2 = id_r r"
    and "name r2 = name r" and "filePath r2 = filePath r" and "type_r r2 = type_r r"
    and "isEnabled r2 = isEnabled r" and "endLine r = None \<longrightarrow> endLine r2 = None"
    by (rule adjustRange_validated)
  with True show ?thesis by (simp add: validateRangeBounds_frame)
qed

lemma adjustRange_withinBounds:
  assumes "adjustRange cur d c r = Inr (r', m)" and "filePath r = cur"
  shows "withinBounds r' \<or> endLine r' = Some 0"
proof -
  from assms obtain r2 where "r' = validateRangeBounds r2"
    by (rule adjustRange_validated)
  then show ?thesis
    by (simp add: validateRangeBounds_withinBounds validateRangeBounds_zero_end)
qed


lemma lineAt_total:
  "0 \<le> n \<Longrightarrow> n < lineCount d \<Longrightarrow> lineAt d n = Inr (lines_d d ! nat n)"
  by (simp add: lineAt_def)

lemma calculateRangeAdjustment_total:
  assumes "0 \<le> L" and "L < lineCount d"
  shows "\<exists>a. calculateRangeAdjustment L n rs re c d = Inr a"
  using assms
  by (simp add: calculateRangeAdjustment_def handleChangeAtRangeStart_def
      handleChangeAtRangeEnd_def isInsertionBeforeContent_def shouldExpandRangeAtEnd_def
      shouldExpandForNewlineInsertion_def isInsertionAfterContent_def lineAt_total Let_def)

lemma adjustRange_total:
  assumes "0 \<le> changeStartLine_of c" and "changeStartLine_of c < lineCount d"
  shows "\<exists>r' m. adjustRange cur d c r = Inr (r', m)"
proof -
  obtain a where "calculateRangeAdjustment (changeStartLine_of c) (netLineChange_of c)
      (startLine r - 1)
      (case endLine r of None \<Rightarrow> startLine r - 1
       | Some e \<Rightarrow> if e \<noteq> 0 then e - 1 else startLine r - 1) c d = Inr a"
    using calculateRangeAdjustment_total [OF assms] by blast
  then show ?thesis
    by (auto simp: adjustRange_def Let_def)
qed


lemma mapRanges_frame:
  assumes "mapRanges (adjustRange cur d c) rs = Inr (rs', m)"
  shows "list_all2 (\<lambda>r r'. id_r r' = id_r r \<and> name r' = name r \<and> filePath r' = filePath r \<and>
           type_r r' = type_r r \<and> isEnabled r' = isEnabled r \<and>
           (filePath r \<noteq> cur \<longrightarrow> r' = r) \<and> (endLine r = None \<longrightarrow> endLine r' = None)) rs rs'"
  using assms
proof (induction rs arbitrary: rs' m)
  case Nil
  then show ?case by simp
next
  case (Cons r rs)
  from Cons.prems obtain r1 m1 rs1 m2 where
    h: "adjustRange cur d c r = Inr (r1, m1)" and t: "mapRanges (adjustRange cur d c) rs = Inr (rs1, m2)"
    and e: "rs' = r1 # rs1"
    by (auto split: sum.splits prod.splits)
  from Cons.IH [OF t] adjustRange_frame [OF h] e show ?case by simp
qed

text \<open>
  Claim C10. Whenever the loop over the content changes returns, the resulting list has
  the ranges of the given list in the same order and number, each with its id, name,
  file path, type and enabled flag unchanged; a range of another file is returned as it
  was, and a range without an end line still has none.
\<close>

theorem change_processing_frame:
  assumes "processChanges cur d cs rs m = Inr (rs', m')"
  shows "list_all2 (\<lambda>r r'. id_r r' = id_r r \<and> name r' = name r \<and> filePath r' = filePath r \<and>
           type_r r' = type_r r \<and> isEnabled r' = isEnabled r \<and>
           (filePath r \<noteq> cur \<longrightarrow> r' = r) \<and> (endLine r = None \<longrightarrow> endLine r' = None)) rs rs'"
  using assms
proof (induction cs arbitrary: rs m)
  case Nil
  then show ?case by (simp add: list_all2_refl)
next
  case (Cons c cs)
  show ?case
  proof (cases "netLineChange_of c = 0")
    case True
    with Cons show ?thesis by simp
  next
    case False
    with Cons.prems obtain rs1 m1 where
      s: "mapRanges (adjustRange cur d c) rs = Inr (rs1, m1)"
      and t: "processChanges cur d cs rs1 (m \<or> m1) = Inr (rs', m')"
      by (auto split: sum.splits prod.splits)
    from mapRanges_frame [OF s] Cons.IH [OF t] show ?thesis
      by (rule list_all2_trans [rotated]) auto
  qed
qed

theorem change_processing_frame_witness:
  "list_all2 (\<lambda>r r'. id_r r' = id_r r \<and> name r' = name r \<and> filePath r' = filePath r \<and>
           type_r r' = type_r r \<and> isEnabled r' = isEnabled r \<and>
           (filePath r \<noteq> ''/w/a.py'' \<longrightarrow> r' = r) \<and> (endLine r = None \<longrightarrow> endLine r' = None))
     [mkBlock ''/w/a.py'' 2 3, mkEvent ''/w/a.py'' 1, mkBlock ''/w/b.py'' 0 5]
     [mkBlock ''/w/a.py'' 3 4, mkEvent ''/w/a.py'' 2, mkBlock ''/w/b.py'' 0 5]"
proof -
  have h: "processChanges ''/w/a.py'' (mkDoc ''/w/a.py'' ['''', ''def f():'', ''    x = 1'', ''    y = 2''])
      [mkChange 0 0 0 0 [newline]]
      [mkBlock ''/w/a.py'' 2 3, mkEvent ''/w/a.py'' 1, mkBlock ''/w/b.py'' 0 5] False =
    Inr ([mkBlock ''/w/a.py'' 3 4, mkEvent ''/w/a.py'' 2, mkBlock ''/w/b.py'' 0 5], True)"
    by (simp add: change_simps engine_simps)
  show ?thesis
    by (rule change_processing_frame [OF h])
qed

section \<open>Bounds after change processing\<close>

lemma mapRanges_bounds:
  assumes "0 \<le> changeStartLine_of c" and "changeStartLine_of c < lineCount d"
  shows "\<exists>rs' m. mapRanges (adjustRange cur d c) rs = Inr (rs', m) \<and>
           list_all2 (\<lambda>r r'. filePath r' = filePath r \<and> (filePath r \<noteq> cur \<longrightarrow> r' = r) \<and>
                              (filePath r = cur \<longrightarrow> withinBounds r' \<or> endLine r' = Some 0)) rs rs'"
proof (induction rs)
  case Nil
  then show ?case by auto
next
  case (Cons r rs)
  obtain r1 m1 where h: "adjustRange cur d c r = Inr (r1, m1)"
    using adjustRange_total [OF assms] by blast
  from Cons.IH obtain rs1 m2 where t: "mapRanges (adjustRange cur d c) rs = Inr (rs1, m2)"
    and l: "list_all2 (\<lambda>r r'. filePath r' = filePath r \<and> (filePath r \<noteq> cur \<longrightarrow> r' = r) \<and>
                              (filePath r = cur \<longrightarrow> withinBounds r' \<or> endLine r' = Some 0)) rs rs1"
    by blast
  from adjustRange_frame [OF h] adjustRange_withinBounds [OF h] l
  show ?case by (simp add: h t)
qed

text \<open>
  When the start line of every content change is a line of the event's document, the
  loop returns without error. Each range of the edited file that went through a change
  with non-zero net line change, and each range that was within bounds before, is then
  within bounds, or has the end line 0.
\<close>

lemma change_processing_bounds:
  assumes "\<forall>c \<in> set cs. 0 \<le> changeStartLine_of c \<and> changeStartLine_of c < lineCount d"
  shows "\<exists>rs' m'. processChanges cur d cs rs m = Inr (rs', m') \<and>
           list_all2 (\<lambda>r r'. (withinBounds r \<or>
                               (filePath r = cur \<and> (\<exists>c \<in> set cs. netLineChange_of c \<noteq> 0)))
                              \<longrightarrow> (withinBounds r' \<or> endLine r' = Some 0)) rs rs'"
proof -
  have "\<exists>rs' m'. processChanges cur d cs rs m = Inr (rs', m') \<and>
           list_all2 (\<lambda>r r'. filePath r' = filePath r \<and>
              (((withinBounds r \<or> endLine r = Some 0) \<or> (filePath r = cur \<and> (\<exists>c \<in> set cs. netLineChange_of c \<noteq> 0)))
                              \<longrightarrow> (withinBounds r' \<or> endLine r' = Some 0))) rs rs'"
    using assms
  proof (induction cs arbitrary: rs m)
    case Nil
    then show ?case by (simp add: list_all2_refl)
  next
    case (Cons c cs)
    then have rest: "\<forall>c \<in> set cs. 0 \<le> changeStartLine_of c \<and> changeStartLine_of c < lineCount d"
      by simp
    show ?case
    proof (cases "netLineChange_of c = 0")
      case True
      with Cons.IH [OF rest, of rs m] show ?thesis by simp
    next
      case False
      from Cons.prems have "0 \<le> changeStartLine_of c" "changeStartLine_of c < lineCount d"
        by simp_all
      from mapRanges_bounds [OF this, of cur rs] obtain rs1 m1 where
        s: "mapRanges (adjustRange cur d c) rs = Inr (rs1, m1)"
        and l1: "list_all2 (\<lambda>r r'. filePath r' = filePath r \<and> (filePath r \<noteq> cur \<longrightarrow> r' = r) \<and>
                              (filePath r = cur \<longrightarrow> (withinBounds r' \<or> endLine r' = Some 0))) rs rs1"
        by blast
      from Cons.IH [OF rest, of rs1 "m \<or> m1"] obtain rs' m' where
        t: "processChanges cur d cs rs1 (m \<or> m1) = Inr (rs', m')"
        and l2: "list_all2 (\<lambda>r r'. filePath r' = filePath r \<and>
              (((withinBounds r \<or> endLine r = Some 0) \<or> (filePath r = cur \<and> (\<exists>c \<in> set cs. netLineChange_of c \<noteq> 0)))
                              \<longrightarrow> (withinBounds r' \<or> endLine r' = Some 0))) rs1 rs'"
        by blast
      have "list_all2 (\<lambda>r r'. filePath r' = filePath r \<and>
              (((withinBounds r \<or> endLine r = Some 0) \<or> (filePath r = cur \<and> (\<exists>c' \<in> set (c # cs). netLineChange_of c' \<noteq> 0)))
                              \<longrightarrow> (withinBounds r' \<or> endLine r' = Some 0))) rs rs'"
        using l1 l2 by (rule list_all2_trans [rotated]) auto
      with False s t show ?thesis by simp
    qed
  qed
  then obtain rs' m' where "processChanges cur d cs rs m = Inr (rs', m')"
    and "list_all2 (\<lambda>r r'. filePath r' = filePath r \<and>
              (((withinBounds r \<or> endLine r = Some 0) \<or> (filePath r = cur \<and> (\<exists>c \<in> set cs. netLineChange_of c \<noteq> 0)))
                              \<longrightarrow> (withinBounds r' \<or> endLine r' = Some 0))) rs rs'"
    by blast
  then show ?thesis
    by (auto elim: list_all2_mono)
qed

text \<open>
  Claim C6 says that every range that results from processing a change event has
  \<open>1 \<le> startLine\<close> and, whenever the end line is present, \<open>startLine \<le> endLine\<close>,
  and that no error is raised. The code does not keep this. \<^verbatim>\<open>validateRangeBounds\<close>
  tests the end line by truthiness, so the end line 0 is taken for a missing one and is
  never clamped; \<^verbatim>\<open>validateRange\<close> tests \<^verbatim>\<open>endLine !== undefined\<close>. The range 3 to
  5 is within bounds and valid for \<^verbatim>\<open>validateRange\<close>; an edit that starts on line
  index 0 and removes five lines turns it into start line 1 and end line 0, which is
  out of bounds and which \<^verbatim>\<open>validateRange\<close> rejects.
\<close>

theorem zero_endLine_not_clamped:
  "processChanges ''/w/a.py'' (mkDoc ''/w/a.py'' [''    y = 2'', ''z = 0''])
      [mkChange 0 0 5 0 []] [mkBlock ''/w/a.py'' 3 5] False =
     Inr ([mkBlock ''/w/a.py'' 1 0], True) \<and>
   withinBounds (mkBlock ''/w/a.py'' 3 5) \<and>
   \<not> withinBounds (mkBlock ''/w/a.py'' 1 0) \<and>
   validateRange (mkBlock ''/w/a.py'' 3 5) = (True, []) \<and>
   validateRange (mkBlock ''/w/a.py'' 1 0) = (False, [''End line must be >= start line''])"
  by (simp add: change_simps engine_simps validateRange_def withinBounds_def)

section \<open>Edits on the start line of a range\<close>




lemma insertedBeforeContent_prefix:
  assumes "0 \<le> col"
  shows "insertedBeforeContent l col = (\<forall>c \<in> set (take (nat col) l). isWhitespace c)"
proof
  assume h: "insertedBeforeContent l col"
  show "\<forall>c \<in> set (take (nat col) l). isWhitespace c"
  proof
    fix c assume "c \<in> set (take (nat col) l)"
    then obtain i where i: "i < length (take (nat col) l)" and c: "c = take (nat col) l ! i"
      by (auto simp: in_set_conv_nth)
    then have il: "i < length l" and ic: "i < nat col" and cl: "c = l ! i" by simp_all
    from h have "\<forall>i \<in> {0..<length l}. \<not> isWhitespace (l ! i) \<longrightarrow> col \<le> int i"
      by (simp only: insertedBeforeContent_def)
    moreover from il have "i \<in> {0..<length l}" by simp
    ultimately have "\<not> isWhitespace (l ! i) \<longrightarrow> col \<le> int i" by blast
    moreover from ic have "\<not> col \<le> int i" by linarith
    ultimately show "isWhitespace c" using cl by blast
  qed
next
  assume h: "\<forall>c \<in> set (take (nat col) l). isWhitespace c"
  show "insertedBeforeContent l col"
    unfolding insertedBeforeContent_def
  proof (intro ballI impI)
    fix i assume i: "i \<in> {0..<length l}" and n: "\<not> isWhitespace (l ! i)"
    show "col \<le> int i"
    proof (rule ccontr)
      assume "\<not> col \<le> int i"
      then have ic: "i < nat col" by linarith
      from i have il: "i < length l" by simp
      from ic il have "take (nat col) l ! i = l ! i" by simp
      moreover from ic il have "i < length (take (nat col) l)" by simp
      ultimately have "l ! i \<in> set (take (nat col) l)" by (metis nth_mem)
      with h n show False by blast
    qed
  qed
qed











text \<open>
  With more than one edit in an event the text before an edit and the text the handler
  reads can differ on the edit's start line. Two line breaks, one at the end of line
  index 1 and one at the end of line index 0, reach the handler with the final text, in
  which line index 1 is blank. The first edit is not before the content of its line in
  the text before it, yet the range 2 to 3 is moved as a whole and ends as 4 to 5;
  edit by edit, each with the text right after it, the range would end as 3 to 5.
\<close>

lemma at_start_reads_final_document:
  "applyChange [''def f'', ''    x = 1'', ''    y = 2''] (mkChange 1 9 1 9 [newline]) =
     [''def f'', ''    x = 1'', '''', ''    y = 2''] \<and>
   applyChange [''def f'', ''    x = 1'', '''', ''    y = 2''] (mkChange 0 5 0 5 [newline]) =
     [''def f'', '''', ''    x = 1'', '''', ''    y = 2''] \<and>
   \<not> insertedBeforeContent ''    x = 1'' 9 \<and>
   processChanges ''/w/a.py''
     (mkDoc ''/w/a.py'' [''def f'', '''', ''    x = 1'', '''', ''    y = 2''])
     [mkChange 1 9 1 9 [newline], mkChange 0 5 0 5 [newline]] [mkBlock ''/w/a.py'' 2 3] False =
   Inr ([mkBlock ''/w/a.py'' 4 5], True) \<and>
   processChanges ''/w/a.py'' (mkDoc ''/w/a.py'' [''def f'', ''    x = 1'', '''', ''    y = 2''])
     [mkChange 1 9 1 9 [newline]] [mkBlock ''/w/a.py'' 2 3] False =
   Inr ([mkBlock ''/w/a.py'' 2 4], True) \<and>
   processChanges ''/w/a.py''
     (mkDoc ''/w/a.py'' [''def f'', '''', ''    x = 1'', '''', ''    y = 2''])
     [mkChange 0 5 0 5 [newline]] [mkBlock ''/w/a.py'' 2 4] False =
   Inr ([mkBlock ''/w/a.py'' 3 5], True)"
proof (intro conjI)
  show "applyChange [''def f'', ''    x = 1'', ''    y = 2''] (mkChange 1 9 1 9 [newline]) =
     [''def f'', ''    x = 1'', '''', ''    y = 2'']"
    by (simp add: applyChange_def newline_def)
  show "applyChange [''def f'', ''    x = 1'', '''', ''    y = 2''] (mkChange 0 5 0 5 [newline]) =
     [''def f'', '''', ''    x = 1'', '''', ''    y = 2'']"
    by (simp add: applyChange_def newline_def)
  show "\<not> insertedBeforeContent ''    x = 1'' 9"
    by (simp add: insertedBeforeContent_prefix isWhitespace_def)
  show "processChanges ''/w/a.py''
     (mkDoc ''/w/a.py'' [''def f'', '''', ''    x = 1'', '''', ''    y = 2''])
     [mkChange 1 9 1 9 [newline], mkChange 0 5 0 5 [newline]] [mkBlock ''/w/a.py'' 2 3] False =
   Inr ([mkBlock ''/w/a.py'' 4 5], True)"
    by (simp add: change_simps engine_simps)
  show "processChanges ''/w/a.py'' (mkDoc ''/w/a.py'' [''def f'', ''    x = 1'', '''', ''    y = 2''])
     [mkChange 1 9 1 9 [newline]] [mkBlock ''/w/a.py'' 2 3] False =
   Inr ([mkBlock ''/w/a.py'' 2 4], True)"
    by (simp add: change_simps engine_simps)
  show "processChanges ''/w/a.py''
     (mkDoc ''/w/a.py'' [''def f'', '''', ''    x = 1'', '''', ''    y = 2''])
     [mkChange 0 5 0 5 [newline]] [mkBlock ''/w/a.py'' 2 4] False =
   Inr ([mkBlock ''/w/a.py'' 3 5], True)"
    by (simp add: change_simps engine_simps)
qed

section \<open>Edits on the end line of a range\<close>












text \<open>
  The line after the edit's start line is read in the text after the edit, where it is
  the first inserted line, not the line that followed before the edit. With the text
  before the edit in place of \<^verbatim>\<open>event.document\<close> the scenario above would leave the
  range unchanged.
\<close>

lemma at_end_reads_text_after_edit:
  "applyChange [''def f():'', ''    x = 1'', ''    y = 2'', '''', ''z = 0'']
     (mkChange 2 9 2 9 (newline # ''    w = 3'')) =
     [''def f():'', ''    x = 1'', ''    y = 2'', ''    w = 3'', '''', ''z = 0''] \<and>
   \<not> hasContent (nextLineOf (mkDoc ''/w/a.py'' [''def f():'', ''    x = 1'', ''    y = 2'', '''', ''z = 0'']) 2) \<and>
   \<not> hasContentFrom 9 ''    y = 2'' \<and>
   processChanges ''/w/a.py''
     (mkDoc ''/w/a.py'' [''def f():'', ''    x = 1'', ''    y = 2'', ''    w = 3'', '''', ''z = 0''])
     [mkChange 2 9 2 9 (newline # ''    w = 3'')] [mkBlock ''/w/a.py'' 2 3] False =
   Inr ([mkBlock ''/w/a.py'' 2 4], True) \<and>
   processChanges ''/w/a.py''
     (mkDoc ''/w/a.py'' [''def f():'', ''    x = 1'', ''    y = 2'', '''', ''z = 0''])
     [mkChange 2 9 2 9 (newline # ''    w = 3'')] [mkBlock ''/w/a.py'' 2 3] False =
   Inr ([mkBlock ''/w/a.py'' 2 3], False)"
proof (intro conjI)
  show "applyChange [''def f():'', ''    x = 1'', ''    y = 2'', '''', ''z = 0'']
     (mkChange 2 9 2 9 (newline # ''    w = 3'')) =
     [''def f():'', ''    x = 1'', ''    y = 2'', ''    w = 3'', '''', ''z = 0'']"
    by (simp add: applyChange_def newline_def)
  show "\<not> hasContent (nextLineOf (mkDoc ''/w/a.py'' [''def f():'', ''    x = 1'', ''    y = 2'', '''', ''z = 0'']) 2)"
    by (simp add: nextLineOf_def hasContent_def lineCount_def)
  show "\<not> hasContentFrom 9 ''    y = 2''"
    by (simp add: hasContentFrom_def)
  show "processChanges ''/w/a.py''
     (mkDoc ''/w/a.py'' [''def f():'', ''    x = 1'', ''    y = 2'', ''    w = 3'', '''', ''z = 0''])
     [mkChange 2 9 2 9 (newline # ''    w = 3'')] [mkBlock ''/w/a.py'' 2 3] False =
   Inr ([mkBlock ''/w/a.py'' 2 4], True)"
    by (simp add: change_simps engine_simps)
  show "processChanges ''/w/a.py''
     (mkDoc ''/w/a.py'' [''def f():'', ''    x = 1'', ''    y = 2'', '''', ''z = 0''])
     [mkChange 2 9 2 9 (newline # ''    w = 3'')] [mkBlock ''/w/a.py'' 2 3] False =
   Inr ([mkBlock ''/w/a.py'' 2 3], False)"
    by (simp add: change_simps engine_simps)
qed

section \<open>Reading the stored ranges\<close>

lemmas store_simps =
  readRanges_def getRangesFilePath_def RANGES_FILE_NAME_def showErrorMessage_def trim_def
  trimEnd_def isWhitespace_def newline_def

text \<open>
  Claim C8. \<^verbatim>\<open>readRanges\<close> returns the empty list and shows no message when the file
  is absent or its content is empty after trimming. When the content is not valid JSON
  (\<^verbatim>\<open>JSON.parse\<close> throws), and also when no workspace folder is open, it shows the
  error and returns the empty list. The function has no error result: every throw in
  its body is caught.
\<close>

theorem readRanges_degrades_to_empty:
  "(getRangesFilePath ws = Inr p \<longrightarrow> files ws p = None \<longrightarrow> readRanges J ws = ([], ws)) \<and>
   (getRangesFilePath ws = Inr p \<longrightarrow> files ws p = Some (Content c) \<longrightarrow> trim c = [] \<longrightarrow>
      readRanges J ws = ([], ws)) \<and>
   (getRangesFilePath ws = Inr p \<longrightarrow> files ws p = Some (Content c) \<longrightarrow> trim c \<noteq> [] \<longrightarrow>
      json_parse J (trim c) = Inl e \<longrightarrow>
      readRanges J ws = ([], showErrorMessage (''Error reading NVTX ranges: '' @ e) ws)) \<and>
   (getRangesFilePath ws = Inl e \<longrightarrow>
      readRanges J ws = ([], showErrorMessage (''Error reading NVTX ranges: '' @ e) ws))"
  by (simp add: readRanges_def)

theorem readRanges_degrades_to_empty_witness:
  "readRanges exCodec (exWorkspace None) = ([], exWorkspace None) \<and>
   readRanges exCodec (exWorkspace (Some (Content [CHR '' '', newline]))) =
     ([], exWorkspace (Some (Content [CHR '' '', newline]))) \<and>
   readRanges exCodec (exWorkspace (Some (Content ''[{''))) =
     ([], (exWorkspace (Some (Content ''[{'')))
            \<lparr>messages :=
               [''Error reading NVTX ranges: SyntaxError: Unexpected end of JSON input'']\<rparr>)"
  using
    readRanges_degrades_to_empty [of "exWorkspace None" "''/w/.vscode/nvtx_ranges.json''" exCodec]
    readRanges_degrades_to_empty [of "exWorkspace (Some (Content [CHR '' '', newline]))"
      "''/w/.vscode/nvtx_ranges.json''" exCodec "[CHR '' '', newline]"]
    readRanges_degrades_to_empty [of "exWorkspace (Some (Content ''[{''))"
      "''/w/.vscode/nvtx_ranges.json''" exCodec "''[{''"
      "''SyntaxError: Unexpected end of JSON input''"]
  by (simp add: getRangesFilePath_def RANGES_FILE_NAME_def showErrorMessage_def trim_def
      trimEnd_def isWhitespace_def newline_def)

section \<open>Deleting, updating and toggling by id\<close>

lemma filter_keeps_length:
  "(length (filter P xs) \<noteq> length xs) = (\<exists>x \<in> set xs. \<not> P x)"
proof -
  have "length (filter P xs) + length (filter (\<lambda>x. \<not> P x) xs) = length xs"
    by (rule sum_length_filter_compl)
  then have "(length (filter P xs) = length xs) = (filter (\<lambda>x. \<not> P x) xs = [])"
    by auto
  then show ?thesis by (auto simp: filter_empty_conv)
qed

lemma deleteRange_result:
  "fst (deleteRange J rangeId ws) = (\<exists>r \<in> set (fst (readRanges J ws)). id_r r = rangeId)"
  by (simp add: deleteRange_def Let_def filter_keeps_length split: prod.splits)

lemma deleteRange_not_found:
  "\<not> (\<exists>r \<in> set (fst (readRanges J ws)). id_r r = rangeId) \<Longrightarrow>
   snd (deleteRange J rangeId ws) = snd (readRanges J ws)"
  by (simp add: deleteRange_def Let_def filter_keeps_length split: prod.splits)

lemma find_is_Some:
  "(\<exists>x. find P xs = Some x) = (\<exists>x \<in> set xs. P x)"
  using find_None_iff [of P xs] by auto

lemma updateRange_alt:
  "updateRange J rangeId u ws =
     (case find (\<lambda>r. id_r r = rangeId) (fst (readRanges J ws)) of
        Some targetRange \<Rightarrow>
          (True, writeRanges J
                   (updateFirst (\<lambda>r. id_r r = rangeId) (assignUpdates u)
                      (fst (readRanges J ws))) (snd (readRanges J ws)))
      | None \<Rightarrow> (False, snd (readRanges J ws)))"
  by (cases "readRanges J ws") (simp add: updateRange_def split: option.splits)

lemma toggleRangeEnabled_alt:
  "toggleRangeEnabled J rangeId ws =
     (case find (\<lambda>r. id_r r = rangeId) (fst (readRanges J ws)) of
        Some targetRange \<Rightarrow>
          (True, writeRanges J
                   (updateFirst (\<lambda>r. id_r r = rangeId) (\<lambda>r. r\<lparr>isEnabled := \<not> isEnabled r\<rparr>)
                      (fst (readRanges J ws))) (snd (readRanges J ws)))
      | None \<Rightarrow> (False, snd (readRanges J ws)))"
  by (cases "readRanges J ws") (simp add: toggleRangeEnabled_def split: option.splits)

lemma updateRange_result:
  "fst (updateRange J rangeId u ws) = (\<exists>r \<in> set (fst (readRanges J ws)). id_r r = rangeId)"
proof (cases "find (\<lambda>r. id_r r = rangeId) (fst (readRanges J ws))")
  case None
  then have "\<not> (\<exists>r \<in> set (fst (readRanges J ws)). id_r r = rangeId)"
    by (simp add: find_None_iff)
  with None show ?thesis
    by (simp add: updateRange_alt)
next
  case (Some t)
  then have "\<exists>r \<in> set (fst (readRanges J ws)). id_r r = rangeId"
    using find_is_Some [of "\<lambda>r. id_r r = rangeId" "fst (readRanges J ws)"] by blast
  with Some show ?thesis
    by (simp add: updateRange_alt)
qed

lemma updateRange_not_found:
  "\<not> (\<exists>r \<in> set (fst (readRanges J ws)). id_r r = rangeId) \<Longrightarrow>
   snd (updateRange J rangeId u ws) = snd (readRanges J ws)"
proof -
  assume "\<not> (\<exists>r \<in> set (fst (readRanges J ws)). id_r r = rangeId)"
  then have "find (\<lambda>r. id_r r = rangeId) (fst (readRanges J ws)) = None"
    by (simp add: find_None_iff)
  then show ?thesis
    by (simp add: updateRange_alt)
qed

lemma toggleRangeEnabled_result:
  "fst (toggleRangeEnabled J rangeId ws) = (\<exists>r \<in> set (fst (readRanges J ws)). id_r r = rangeId)"
proof (cases "find (\<lambda>r. id_r r = rangeId) (fst (readRanges J ws))")
  case None
  then have "\<not> (\<exists>r \<in> set (fst (readRanges J ws)). id_r r = rangeId)"
    by (simp add: find_None_iff)
  with None show ?thesis
    by (simp add: toggleRangeEnabled_alt)
next
  case (Some t)
  then have "\<exists>r \<in> set (fst (readRanges J ws)). id_r r = rangeId"
    using find_is_Some [of "\<lambda>r. id_r r = rangeId" "fst (readRanges J ws)"] by blast
  with Some show ?thesis
    by (simp add: toggleRangeEnabled_alt)
qed

lemma toggleRangeEnabled_not_found:
  "\<not> (\<exists>r \<in> set (fst (readRanges J ws)). id_r r = rangeId) \<Longrightarrow>
   snd (toggleRangeEnabled J rangeId ws) = snd (readRanges J ws)"
proof -
  assume "\<not> (\<exists>r \<in> set (fst (readRanges J ws)). id_r r = rangeId)"
  then have "find (\<lambda>r. id_r r = rangeId) (fst (readRanges J ws)) = None"
    by (simp add: find_None_iff)
  then show ?thesis
    by (simp add: toggleRangeEnabled_alt)
qed

lemma readRanges_after_read:
  "fst (readRanges J (snd (readRanges J ws))) = fst (readRanges J ws)"
  by (rule readRanges_cong) simp_all

text \<open>
  Claim C9. \<^verbatim>\<open>deleteRange\<close>, \<^verbatim>\<open>updateRange\<close> and \<^verbatim>\<open>toggleRangeEnabled\<close> each
  return true exactly when the ranges read from the store hold a range with the given
  id. When none does, they write nothing: the files are as before, and a later read
  returns the same ranges.
\<close>

theorem store_updates_report_existence:
  "fst (deleteRange J rangeId ws) = (\<exists>r \<in> set (fst (readRanges J ws)). id_r r = rangeId) \<and>
   fst (updateRange J rangeId u ws) = (\<exists>r \<in> set (fst (readRanges J ws)). id_r r = rangeId) \<and>
   fst (toggleRangeEnabled J rangeId ws) =
     (\<exists>r \<in> set (fst (readRanges J ws)). id_r r = rangeId) \<and>
   (\<not> (\<exists>r \<in> set (fst (readRanges J ws)). id_r r = rangeId) \<longrightarrow>
      files (snd (deleteRange J rangeId ws)) = files ws \<and>
      files (snd (updateRange J rangeId u ws)) = files ws \<and>
      files (snd (toggleRangeEnabled J rangeId ws)) = files ws \<and>
      fst (readRanges J (snd (deleteRange J rangeId ws))) = fst (readRanges J ws) \<and>
      fst (readRanges J (snd (updateRange J rangeId u ws))) = fst (readRanges J ws) \<and>
      fst (readRanges J (snd (toggleRangeEnabled J rangeId ws))) = fst (readRanges J ws))"
  by (simp add: deleteRange_result updateRange_result toggleRangeEnabled_result
      deleteRange_not_found updateRange_not_found toggleRangeEnabled_not_found
      readRanges_after_read)

theorem store_updates_report_existence_witness:
  "fst (deleteRange exCodec ''42'' (exWorkspace (Some (Content ''[r]'')))) = False \<and>
   fst (updateRange exCodec ''42'' \<lparr>u_id = None, u_name = Some ''renamed'', u_filePath = None,
          u_type = None, u_startLine = None, u_endLine = None, u_isEnabled = None\<rparr>
        (exWorkspace (Some (Content ''[r]'')))) = False \<and>
   fst (toggleRangeEnabled exCodec ''42'' (exWorkspace (Some (Content ''[r]'')))) = False \<and>
   files (snd (deleteRange exCodec ''42'' (exWorkspace (Some (Content ''[r]''))))) =
     files (exWorkspace (Some (Content ''[r]''))) \<and>
   fst (deleteRange exCodec ''1700000000000'' (exWorkspace (Some (Content ''[r]'')))) = True"
  using
    store_updates_report_existence [of exCodec "''42''" "exWorkspace (Some (Content ''[r]''))"
      "\<lparr>u_id = None, u_name = Some ''renamed'', u_filePath = None,
          u_type = None, u_startLine = None, u_endLine = None, u_isEnabled = None\<rparr>"]
    store_updates_report_existence [of exCodec "''1700000000000''"
      "exWorkspace (Some (Content ''[r]''))"
      "\<lparr>u_id = None, u_name = Some ''renamed'', u_filePath = None,
          u_type = None, u_startLine = None, u_endLine = None, u_isEnabled = None\<rparr>"]
  by (simp add: store_simps)

lemma deleteRange_example:
  "deleteRange exCodec ''1700000000000'' (exWorkspace (Some (Content ''[r]''))) =
     (True, exWorkspace (Some (Content ''[]'')))"
  by (simp add: store_simps deleteRange_def writeRanges_def fun_eq_iff)

section \<open>Ids of created ranges\<close>

lemma toString_not_Nil: "toString n \<noteq> []"
  by (subst toString.simps) simp

lemma digitChar_inj: "a < 10 \<Longrightarrow> b < 10 \<Longrightarrow> digitChar a = digitChar b \<Longrightarrow> a = b"
proof -
  assume a: "a < 10" and b: "b < 10" and e: "digitChar a = digitChar b"
  have "distinct ''0123456789''" by simp
  moreover have "a < length ''0123456789''" "b < length ''0123456789''" using a b by simp_all
  ultimately show "a = b" using e unfolding digitChar_def by (simp only: nth_eq_iff_index_eq)
qed

lemma toString_inj: "toString m = toString n \<Longrightarrow> m = n"
proof (induction m arbitrary: n rule: toString.induct)
  case (1 m)
  show ?case
  proof (cases "m < 10")
    case m: True
    show ?thesis
    proof (cases "n < 10")
      case True
      with m "1.prems" have "digitChar m = digitChar n"
        by (simp add: toString.simps [of m] toString.simps [of n])
      with m True show ?thesis by (rule digitChar_inj)
    next
      case False
      with m "1.prems" have "[digitChar m] = toString (n div 10) @ [digitChar (n mod 10)]"
        by (simp add: toString.simps [of m] toString.simps [of n])
      then have "toString (n div 10) = []" by simp
      with toString_not_Nil show ?thesis by blast
    qed
  next
    case m: False
    show ?thesis
    proof (cases "n < 10")
      case True
      with m "1.prems" have "toString (m div 10) @ [digitChar (m mod 10)] = [digitChar n]"
        by (simp add: toString.simps [of m] toString.simps [of n])
      then have "toString (m div 10) = []" by simp
      with toString_not_Nil show ?thesis by blast
    next
      case False
      with m "1.prems" have
        "toString (m div 10) @ [digitChar (m mod 10)] = toString (n div 10) @ [digitChar (n mod 10)]"
        by (simp add: toString.simps [of m] toString.simps [of n])
      then have a: "toString (m div 10) = toString (n div 10)"
        and b: "digitChar (m mod 10) = digitChar (n mod 10)"
        by simp_all
      from "1.IH" [OF m a] have "m div 10 = n div 10" .
      moreover from b have "m mod 10 = n mod 10" by (intro digitChar_inj) simp_all
      ultimately show ?thesis by (metis div_mult_mod_eq)
    qed
  qed
qed

lemma createRange_ids_collide_iff:
  "(id_r (createRange t1 nm1 fp1 sl1 el1 ty1 en1) = id_r (createRange t2 nm2 fp2 sl2 el2 ty2 en2))
     = (t1 = t2)"
  by (auto simp: createRange_def generateUniqueId_def dest: toString_inj)

text \<open>
  Claim C7 does not hold for the code. The id is the decimal rendering of the clock
  reading, so two ranges created while the clock shows the same millisecond get the
  same id; ids differ exactly when the clock readings differ.
\<close>

theorem createRange_same_millisecond_same_id:
  "id_r (createRange 1700000000000 ''forward'' ''/w/a.py'' 3 (Some 5) Block True) = ''1700000000000'' \<and>
   id_r (createRange 1700000000000 ''backward'' ''/w/a.py'' 10 (Some 12) Block True) = ''1700000000000'' \<and>
   createRange 1700000000000 ''forward'' ''/w/a.py'' 3 (Some 5) Block True \<noteq>
   createRange 1700000000000 ''backward'' ''/w/a.py'' 10 (Some 12) Block True"
  by (simp add: createRange_def generateUniqueId_def toString.simps digitChar_def)

end
